theory Spec2Isabelle
  imports Complex_Main "HOL-Library.Multiset"
begin

section \<open>Values and errors\<close>

text \<open>
  The Python sources compute on NumPy \<open>float64\<close> arrays. Observations are modelled as
  reals (finite floats, rounding not modelled). The results of NumPy arithmetic are
  values of \<open>fval\<close>: a real, or one of the special values that NumPy produces instead of
  raising (\<open>nan\<close> for the mean of an empty array and for \<open>0/0\<close>, \<open>inf\<close> for a nonzero
  value divided by zero). The sign of a zero is not modelled.

  Python exceptions are values of \<open>error\<close>; a function that can raise returns
  \<open>error + 'a\<close> with \<open>Inl\<close> for the exception.
\<close>

datatype fval = NaN | NInf | Fin real | PInf

datatype error = ValueError | ZeroDivisionError | IndexError | TypeError

fun fge :: "fval \<Rightarrow> fval \<Rightarrow> bool" where
  "fge NaN _ = False"
| "fge _ NaN = False"
| "fge PInf _ = True"
| "fge _ NInf = True"
| "fge NInf _ = False"
| "fge _ PInf = False"
| "fge (Fin a) (Fin b) = (b \<le> a)"

fun fabs :: "fval \<Rightarrow> fval" where
  "fabs NaN = NaN"
| "fabs NInf = PInf"
| "fabs PInf = PInf"
| "fabs (Fin a) = Fin \<bar>a\<bar>"

fun fneg :: "fval \<Rightarrow> fval" where
  "fneg NaN = NaN"
| "fneg NInf = PInf"
| "fneg PInf = NInf"
| "fneg (Fin a) = Fin (- a)"

fun fadd :: "fval \<Rightarrow> fval \<Rightarrow> fval" where
  "fadd NaN _ = NaN"
| "fadd _ NaN = NaN"
| "fadd (Fin a) (Fin b) = Fin (a + b)"
| "fadd PInf NInf = NaN"
| "fadd NInf PInf = NaN"
| "fadd PInf _ = PInf"
| "fadd NInf _ = NInf"
| "fadd _ PInf = PInf"
| "fadd _ NInf = NInf"

definition fsub :: "fval \<Rightarrow> fval \<Rightarrow> fval" where
  "fsub a b = fadd a (fneg b)"

text \<open>The sign of an infinite product or quotient: \<open>True\<close> for positive.\<close>

definition inf_of :: "bool \<Rightarrow> fval" where
  "inf_of pos = (if pos then PInf else NInf)"

fun fmul :: "fval \<Rightarrow> fval \<Rightarrow> fval" where
  "fmul NaN _ = NaN"
| "fmul _ NaN = NaN"
| "fmul (Fin a) (Fin b) = Fin (a * b)"
| "fmul (Fin a) PInf = (if a = 0 then NaN else inf_of (0 < a))"
| "fmul (Fin a) NInf = (if a = 0 then NaN else inf_of (a < 0))"
| "fmul PInf (Fin b) = (if b = 0 then NaN else inf_of (0 < b))"
| "fmul NInf (Fin b) = (if b = 0 then NaN else inf_of (b < 0))"
| "fmul PInf PInf = PInf"
| "fmul NInf NInf = PInf"
| "fmul PInf NInf = NInf"
| "fmul NInf PInf = NInf"

fun fdiv :: "fval \<Rightarrow> fval \<Rightarrow> fval" where
  "fdiv NaN _ = NaN"
| "fdiv _ NaN = NaN"
| "fdiv (Fin a) (Fin b) =
     (if b \<noteq> 0 then Fin (a / b) else if a = 0 then NaN else inf_of (0 < a))"
| "fdiv (Fin a) _ = Fin 0"
| "fdiv PInf (Fin b) = inf_of (0 \<le> b)"
| "fdiv NInf (Fin b) = inf_of (b < 0)"
| "fdiv _ _ = NaN"

fun fsqrt :: "fval \<Rightarrow> fval" where
  "fsqrt NaN = NaN"
| "fsqrt NInf = NaN"
| "fsqrt PInf = PInf"
| "fsqrt (Fin a) = (if a < 0 then NaN else Fin (sqrt a))"

definition fsum :: "fval list \<Rightarrow> fval" where
  "fsum xs = foldl fadd (Fin 0) xs"

section \<open>NumPy array operations used by the sources\<close>

text \<open>\<open>a.mean()\<close>: \<open>nan\<close> on an empty array.\<close>

definition np_mean :: "real list \<Rightarrow> fval" where
  "np_mean a = fdiv (Fin (sum_list a)) (Fin (real (length a)))"

text \<open>\<open>np.cumsum(sizes)\<close>.\<close>

fun cumsum_from :: "nat \<Rightarrow> nat list \<Rightarrow> nat list" where
  "cumsum_from acc [] = []"
| "cumsum_from acc (x # xs) = (acc + x) # cumsum_from (acc + x) xs"

definition cumsum :: "nat list \<Rightarrow> nat list" where
  "cumsum xs = cumsum_from 0 xs"

text \<open>
  A Python slice \<open>a[st:en]\<close> with non-negative bounds: it clamps at the end of the
  array and is empty when \<open>en \<le> st\<close>.
\<close>

definition py_slice :: "nat \<Rightarrow> nat \<Rightarrow> 'a list \<Rightarrow> 'a list" where
  "py_slice st en xs = take (en - st) (drop st xs)"

text \<open>
  \<open>np.split(ary, indices)\<close> with an array of indices: NumPy forms the division points
  \<open>[0] + indices + [len(ary)]\<close> and returns the slice between each two consecutive
  points, so \<open>len(indices) + 1\<close> sub-arrays.
\<close>

fun sub_arys :: "nat list \<Rightarrow> 'a list \<Rightarrow> 'a list list" where
  "sub_arys (st # en # ds) xs = py_slice st en xs # sub_arys (en # ds) xs"
| "sub_arys _ xs = []"

definition np_split :: "'a list \<Rightarrow> nat list \<Rightarrow> 'a list list" where
  "np_split ary indices = sub_arys (0 # indices @ [length ary]) ary"

section \<open>The permutation engine (\<open>significance/bootstrap.py\<close>)\<close>

text \<open>
  NumPy's global random generator is a state of an arbitrary type \<open>'g\<close>, threaded
  through every call. \<open>np.random.seed\<close> and \<open>np.random.shuffle\<close> are library code and are
  parameters of the model: \<open>seed s\<close> is the state after seeding with a valid seed \<open>s\<close>,
  and \<open>shuffle g flat\<close> returns the array after the in-place shuffle and the next state.

  A statistic function takes the list of groups and returns a float or raises.
\<close>

type_synonym ('a, 'g) shuffle = "'g \<Rightarrow> 'a list \<Rightarrow> 'a list \<times> 'g"

type_synonym 'a stat_func = "'a list list \<Rightarrow> error + fval"

text \<open>
  Lines 16 and 17: the generator is seeded when a seed is given. \<open>np.random.seed\<close> raises
  \<open>ValueError\<close> for an integer outside \<open>[0, 2 ^ 32 - 1]\<close>.
\<close>

definition seeded :: "(int \<Rightarrow> 'g) \<Rightarrow> 'g \<Rightarrow> int option \<Rightarrow> error + 'g" where
  "seeded seed g random_seed =
     (case random_seed of
        None \<Rightarrow> Inr g
      | Some s \<Rightarrow> if 0 \<le> s \<and> s < 2 ^ 32 then Inr (seed s) else Inl ValueError)"

text \<open>Line 28: the condition under which one iteration adds to \<open>hits\<close>.\<close>

definition is_hit :: "bool \<Rightarrow> fval \<Rightarrow> fval \<Rightarrow> bool" where
  "is_hit two_sided t t_obs =
     (if two_sided then fge (fabs t) (fabs t_obs) else fge t t_obs)"

text \<open>
  Lines 25 and 26: one shuffle of \<open>flat\<close> (in place, so the next iteration starts from
  the shuffled array) and its split into the groups \<open>res\<close>.
\<close>

definition reshuffle ::
  "('a, 'g) shuffle \<Rightarrow> nat list \<Rightarrow> 'a list \<Rightarrow> 'g \<Rightarrow> 'a list list \<times> 'a list \<times> 'g" where
  "reshuffle shuffle sizes flat g =
     (case shuffle g flat of (flat', g') \<Rightarrow>
        (np_split flat' (butlast (cumsum sizes)), flat', g'))"

text \<open>
  Lines 24 to 28: the loop, with the number of iterations left as its first counter
  argument; it returns the hit count and the generator state.
\<close>

fun perm_loop ::
  "('a, 'g) shuffle \<Rightarrow> 'a stat_func \<Rightarrow> bool \<Rightarrow> fval \<Rightarrow> nat list \<Rightarrow>
   nat \<Rightarrow> 'a list \<Rightarrow> 'g \<Rightarrow> nat \<Rightarrow> error + (nat \<times> 'g)" where
  "perm_loop shuffle stat_func two_sided t_obs sizes 0 flat g hits = Inr (hits, g)"
| "perm_loop shuffle stat_func two_sided t_obs sizes (Suc k) flat g hits =
     (case reshuffle shuffle sizes flat g of (res, flat', g') \<Rightarrow>
        (case stat_func res of
           Inl e \<Rightarrow> Inl e
         | Inr t \<Rightarrow>
             perm_loop shuffle stat_func two_sided t_obs sizes k flat' g'
               (hits + (if is_hit two_sided t t_obs then 1 else 0))))"

text \<open>
  \<open>permutation_pvalue\<close>. The seeding comes first and may raise.
  \<open>range(num_samples)\<close> runs \<open>nat num_samples\<close> times (not at all for a negative count). \<open>np.concatenate\<close> raises \<open>ValueError\<close> on an empty list of
  arrays. The last line divides two Python integers when the loop has not run, which
  raises \<open>ZeroDivisionError\<close> for a zero divisor.
\<close>

definition permutation_pvalue ::
  "(int \<Rightarrow> 'g) \<Rightarrow> ('a, 'g) shuffle \<Rightarrow> 'g \<Rightarrow>
   'a list list \<Rightarrow> 'a stat_func \<Rightarrow> int \<Rightarrow> bool \<Rightarrow> int option \<Rightarrow> error + (real \<times> 'g)" where
  "permutation_pvalue seed shuffle g groups stat_func num_samples two_sided random_seed =
     (case seeded seed g random_seed of
        Inl e \<Rightarrow> Inl e
      | Inr g0 \<Rightarrow>
          (case stat_func groups of
             Inl e \<Rightarrow> Inl e
           | Inr t_obs \<Rightarrow>
               if groups = [] then Inl ValueError
               else
                 let flat = concat groups;
                     sizes = map length groups
                 in case perm_loop shuffle stat_func two_sided t_obs sizes
                           (nat num_samples) flat g0 0 of
                      Inl e \<Rightarrow> Inl e
                    | Inr (hits, g') \<Rightarrow>
                        if num_samples = 0 then Inl ZeroDivisionError
                        else Inr (real hits / real_of_int num_samples, g')))"

text \<open>
  The groups \<open>res\<close> and the shuffled pool of each of the next \<open>k\<close> iterations, in order:
  the same steps as \<open>perm_loop\<close>, without the statistic.
\<close>

fun perm_iterations ::
  "('a, 'g) shuffle \<Rightarrow> nat list \<Rightarrow> nat \<Rightarrow> 'a list \<Rightarrow> 'g \<Rightarrow> ('a list list \<times> 'a list) list" where
  "perm_iterations shuffle sizes 0 flat g = []"
| "perm_iterations shuffle sizes (Suc k) flat g =
     (case reshuffle shuffle sizes flat g of (res, flat', g') \<Rightarrow>
        (res, flat') # perm_iterations shuffle sizes k flat' g')"

text \<open>
  The number of hits over a list of iterations: those whose statistic evaluates and
  satisfies the condition of line 28.
\<close>

definition hit_count ::
  "'a stat_func \<Rightarrow> bool \<Rightarrow> fval \<Rightarrow> ('a list list \<times> 'a list) list \<Rightarrow> nat" where
  "hit_count stat_func two_sided t_obs its =
     length (filter (\<lambda>(res, flat'). case stat_func res of
                                      Inl e \<Rightarrow> False
                                    | Inr t \<Rightarrow> is_hit two_sided t t_obs) its)"

section \<open>The classical tests (\<open>significance/tests.py\<close>)\<close>

text \<open>\<open>x ** 2\<close> and \<open>a.var(ddof=1)\<close> (NumPy divides the sum of squares by \<open>max(n - ddof, 0)\<close>).\<close>

definition fsq :: "fval \<Rightarrow> fval" where
  "fsq v = fmul v v"

definition np_var1 :: "real list \<Rightarrow> fval" where
  "np_var1 a =
     fdiv (fsum (map (\<lambda>x. fsq (fsub (Fin x) (np_mean a))) a))
          (Fin (real_of_int (max (int (length a) - 1) 0)))"

text \<open>
  \<open>scipy.stats.ttest_ind\<close> is library code and a parameter \<open>ttest_ind x y equal_var\<close> of
  the model, returning the pair of the statistic and the classical p-value.
\<close>

type_synonym ttest_ind = "real list \<Rightarrow> real list \<Rightarrow> bool \<Rightarrow> fval \<times> fval"

record ttest_result =
  N_x :: nat
  N_y :: nat
  Mean_x :: fval
  Mean_y :: fval
  t_stat :: fval
  p_classic :: fval
  p_perm :: real

text \<open>
  Line 21 of \<open>tests.py\<close>: the statistic handed to the permutation engine. Indexing a
  Python list out of range raises \<open>IndexError\<close>.
\<close>

definition t_stat_func :: "ttest_ind \<Rightarrow> bool \<Rightarrow> real stat_func" where
  "t_stat_func ttest_ind equal_var groups =
     (if length groups < 2 then Inl IndexError
      else Inr (fst (ttest_ind (groups ! 0) (groups ! 1) equal_var)))"

text \<open>
  \<open>ttest_two_samples\<close>. The call of \<open>permutation_pvalue\<close> passes neither \<open>two_sided\<close> nor
  \<open>random_seed\<close>, so they take the defaults \<open>False\<close> and \<open>None\<close>.
\<close>

definition ttest_two_samples ::
  "ttest_ind \<Rightarrow> (int \<Rightarrow> 'g) \<Rightarrow> (real, 'g) shuffle \<Rightarrow> 'g \<Rightarrow>
   real list \<Rightarrow> real list \<Rightarrow> bool \<Rightarrow> int \<Rightarrow> error + (ttest_result \<times> 'g)" where
  "ttest_two_samples ttest_ind seed shuffle g x y equal_var num_permutations =
     (case ttest_ind x y equal_var of (t, p) \<Rightarrow>
        (case permutation_pvalue seed shuffle g [x, y] (t_stat_func ttest_ind equal_var)
                num_permutations False None of
           Inl e \<Rightarrow> Inl e
         | Inr (pp, g') \<Rightarrow>
             Inr (\<lparr>N_x = length x, N_y = length y, Mean_x = np_mean x, Mean_y = np_mean y,
                   t_stat = t, p_classic = p, p_perm = pp\<rparr>, g')))"

text \<open>\<open>_f_statistic\<close>: \<open>sum\<close> starts from 0 and adds NumPy floats; \<open>k - 1\<close> and \<open>N - k\<close> are
  Python integers, and a NumPy float divided by zero is \<open>nan\<close> or \<open>inf\<close>, not an
  exception.\<close>

definition f_statistic :: "real stat_func" where
  "f_statistic groups =
     (let k = int (length groups);
          N = int (sum_list (map length groups))
      in if groups = [] then Inl ValueError
         else
           let all_data = concat groups;
               grand_mean = np_mean all_data;
               ss_between = fsum (map (\<lambda>a. fmul (Fin (real (length a)))
                                              (fsq (fsub (np_mean a) grand_mean))) groups);
               ss_within = fsum (map (\<lambda>a. fsum (map (\<lambda>x. fsq (fsub (Fin x) (np_mean a))) a))
                                     groups);
               ms_between = fdiv ss_between (Fin (real_of_int (k - 1)));
               ms_within = fdiv ss_within (Fin (real_of_int (N - k)))
           in Inr (fdiv ms_between ms_within))"




section \<open>Library stand-ins for concrete runs\<close>

text \<open>
  Concrete runs need concrete library functions. The generator state is a counter of the
  shuffles made; each shuffle rotates the array by half its length. The statistic of
  \<open>ttest_ind\<close> follows SciPy's documented formulas (Welch's for \<open>equal_var = False\<close>,
  Student's pooled one otherwise) and that of \<open>f_oneway\<close> the formula of \<open>_f_statistic\<close>,
  with \<open>TypeError\<close> below two samples; the classical p-values (tails of the t and F
  distributions) are outside this development and stand as \<open>NaN\<close>.
\<close>

definition seed_counter :: "int \<Rightarrow> nat" where
  "seed_counter s = 0"

definition rot_shuffle :: "('a, nat) shuffle" where
  "rot_shuffle g flat = (rotate (length flat div 2) flat, Suc g)"

definition t_statistic :: "real list \<Rightarrow> real list \<Rightarrow> bool \<Rightarrow> fval" where
  "t_statistic x y equal_var =
     (let n1 = Fin (real (length x)); n2 = Fin (real (length y));
          v1 = np_var1 x; v2 = np_var1 y;
          denom =
            (if equal_var then
               let df = Fin (real_of_int (int (length x) + int (length y) - 2));
                   svar = fdiv (fadd (fmul (fsub n1 (Fin 1)) v1) (fmul (fsub n2 (Fin 1)) v2)) df
               in fsqrt (fmul svar (fadd (fdiv (Fin 1) n1) (fdiv (Fin 1) n2)))
             else fsqrt (fadd (fdiv v1 n1) (fdiv v2 n2)))
      in fdiv (fsub (np_mean x) (np_mean y)) denom)"

definition ttest_ind_stat :: ttest_ind where
  "ttest_ind_stat x y equal_var = (t_statistic x y equal_var, NaN)"


section \<open>Tables (\<open>pandas.DataFrame\<close>)\<close>

text \<open>
  A table row has the time slot and its numeric cells by column name; \<open>None\<close> is a
  missing cell (\<open>NaN\<close>). The procedures are modelled on tables that carry the columns
  they read; \<open>columns\<close> lists the names in the table.
\<close>

record row =
  time :: string
  cell :: "string \<Rightarrow> real option"

record frame =
  columns :: "string list"
  recs :: "row list"

text \<open>\<open>df[time_col].isin(top_times)\<close>, \<open>df[c] > 0\<close>, \<open>df[c] == 0\<close> (both false on a missing
  cell), \<open>.dropna().to_numpy()\<close> and the column name \<open>f"cat_{c}_event_count"\<close>.\<close>

definition isin :: "string list \<Rightarrow> row \<Rightarrow> bool" where
  "isin top_times r = (time r \<in> set top_times)"

definition gt0 :: "real option \<Rightarrow> bool" where
  "gt0 c = (case c of None \<Rightarrow> False | Some v \<Rightarrow> 0 < v)"

definition eq0 :: "real option \<Rightarrow> bool" where
  "eq0 c = (case c of None \<Rightarrow> False | Some v \<Rightarrow> v = 0)"

definition dropna :: "real option list \<Rightarrow> real list" where
  "dropna cs = List.map_filter (\<lambda>c. c) cs"

definition cat_col :: "string \<Rightarrow> string" where
  "cat_col c = ''cat_'' @ c @ ''_event_count''"

text \<open>The values of a column over the selected rows, missing cells dropped.\<close>

definition col_values :: "string \<Rightarrow> row list \<Rightarrow> real list" where
  "col_values c rs = dropna (map (\<lambda>r. cell r c) rs)"


section \<open>The orchestration procedures (\<open>significance/wrapper.py\<close>)\<close>

subsection \<open>\<open>show_category_anova\<close>\<close>





subsection \<open>Example data\<close>



subsection \<open>\<open>show_category_ttests\<close>\<close>

record cat_row =
  Category :: string
  N_with :: nat
  N_baseline :: nat
  Mean_with :: fval
  Mean_baseline :: fval
  c_t_stat :: fval
  c_p_perm :: real
  Cohen_d :: fval

text \<open>Lines 151 and 152, and lines 156 to 158: the baseline and the group of a category.\<close>

definition ttest_baseline :: "frame \<Rightarrow> string list \<Rightarrow> string \<Rightarrow> string \<Rightarrow> real list" where
  "ttest_baseline df top_times return_col event_col =
     col_values return_col (filter (\<lambda>r. isin top_times r \<and> eq0 (cell r event_col)) (recs df))"

definition cat_group :: "frame \<Rightarrow> string list \<Rightarrow> string \<Rightarrow> string \<Rightarrow> real list" where
  "cat_group df top_times return_col cat =
     col_values return_col (filter (\<lambda>r. isin top_times r \<and> gt0 (cell r (cat_col cat))) (recs df))"

text \<open>Lines 173 to 175: the effect size.\<close>

definition cohen_d :: "fval \<Rightarrow> fval \<Rightarrow> real list \<Rightarrow> real list \<Rightarrow> fval" where
  "cohen_d mean_x mean_y grp baseline =
     fdiv (fsub mean_x mean_y)
          (fsqrt (fdiv (fadd (np_var1 grp) (np_var1 baseline)) (Fin 2)))"

text \<open>
  Lines 155 to 176: the loop over the categories. A category below the minimum sample
  size adds no row and draws no permutation.
\<close>

fun category_rows ::
  "ttest_ind \<Rightarrow> (int \<Rightarrow> 'g) \<Rightarrow> (real, 'g) shuffle \<Rightarrow> frame \<Rightarrow> string list \<Rightarrow> string \<Rightarrow>
   real list \<Rightarrow> bool \<Rightarrow> int \<Rightarrow> string list \<Rightarrow> 'g \<Rightarrow> error + (cat_row list \<times> 'g)" where
  "category_rows ttest_ind seed shuffle df top_times return_col baseline equal_var
     num_permutations [] g = Inr ([], g)"
| "category_rows ttest_ind seed shuffle df top_times return_col baseline equal_var
     num_permutations (cat # cats) g =
     (let grp = cat_group df top_times return_col cat
      in if 5 \<le> length grp \<and> 5 \<le> length baseline then
           (case ttest_two_samples ttest_ind seed shuffle g grp baseline equal_var
                   num_permutations of
              Inl e \<Rightarrow> Inl e
            | Inr (stats, g') \<Rightarrow>
                (case category_rows ttest_ind seed shuffle df top_times return_col baseline
                        equal_var num_permutations cats g' of
                   Inl e \<Rightarrow> Inl e
                 | Inr (rows, g'') \<Rightarrow>
                     Inr (\<lparr>Category = cat, N_with = length grp,
                           N_baseline = length baseline,
                           Mean_with = Mean_x stats, Mean_baseline = Mean_y stats,
                           c_t_stat = t_stat stats, c_p_perm = p_perm stats,
                           Cohen_d = cohen_d (Mean_x stats) (Mean_y stats) grp baseline\<rparr>
                          # rows, g'')))
         else category_rows ttest_ind seed shuffle df top_times return_col baseline
                equal_var num_permutations cats g)"

text \<open>
  \<open>DataFrame.round(6)\<close> rounds every float column with NumPy's rule: scale by \<open>10 ^ 6\<close>,
  round to the nearest integer with ties to the even one, scale back. The special
  values stay as they are; the integer columns are not touched.
\<close>

definition rint :: "real \<Rightarrow> int" where
  "rint x =
     (let f = \<lfloor>x\<rfloor>; d = x - real_of_int f
      in if d < 1 / 2 then f else if 1 / 2 < d then f + 1 else if even f then f else f + 1)"

definition round_dec :: "nat \<Rightarrow> real \<Rightarrow> real" where
  "round_dec n x = real_of_int (rint (x * 10 ^ n)) / 10 ^ n"

fun fround :: "nat \<Rightarrow> fval \<Rightarrow> fval" where
  "fround n (Fin a) = Fin (round_dec n a)"
| "fround n v = v"

definition round_row :: "cat_row \<Rightarrow> cat_row" where
  "round_row r =
     r\<lparr>Mean_with := fround 6 (Mean_with r), Mean_baseline := fround 6 (Mean_baseline r),
       c_t_stat := fround 6 (c_t_stat r), c_p_perm := round_dec 6 (c_p_perm r),
       Cohen_d := fround 6 (Cohen_d r)\<rparr>"

text \<open>Lines 188 to 190: \<open>m - np.arange(m)\<close> and \<open>np.minimum(1, p * holm_factors)\<close>.\<close>

definition holm_factors :: "nat \<Rightarrow> int list" where
  "holm_factors m = map (\<lambda>i. int m - int i) [0..<m]"

definition holm_p :: "real list \<Rightarrow> real list" where
  "holm_p p = map2 (\<lambda>x f. min 1 (x * real_of_int f)) p (holm_factors (length p))"

record holm_row = cat_row +
  p_perm_holm :: real

text \<open>
  Lines 182 to 191: the result table, rounded, sorted by \<open>p_perm\<close> and with the Holm
  column added. Among rows of equal \<open>p_perm\<close> the model keeps the order of the
  categories; the column of p-values does not depend on that choice.
\<close>

definition holm_table :: "cat_row list \<Rightarrow> holm_row list" where
  "holm_table rows =
     (let res = sort_key c_p_perm (map round_row rows)
      in map2 (\<lambda>r h. cat_row.extend r \<lparr>p_perm_holm = h\<rparr>) res (holm_p (map c_p_perm res)))"

text \<open>\<open>show_category_ttests\<close>: the displayed table and the returned list \<open>sig_cats\<close>.\<close>

definition show_category_ttests ::
  "ttest_ind \<Rightarrow> (int \<Rightarrow> 'g) \<Rightarrow> (real, 'g) shuffle \<Rightarrow> 'g \<Rightarrow>
   frame \<Rightarrow> string list \<Rightarrow> string list \<Rightarrow> string \<Rightarrow> string \<Rightarrow> int \<Rightarrow> bool \<Rightarrow> real \<Rightarrow>
   error + ((holm_row list \<times> string list) \<times> 'g)" where
  "show_category_ttests ttest_ind seed shuffle g df top_times categories return_col event_col
     num_permutations equal_var alpha =
     (let baseline = ttest_baseline df top_times return_col event_col
      in case category_rows ttest_ind seed shuffle df top_times return_col baseline equal_var
                num_permutations categories g of
           Inl e \<Rightarrow> Inl e
         | Inr (rows, g') \<Rightarrow>
             if rows = [] then Inl ValueError
             else
               let res = holm_table rows;
                   sig_cats = map Category (filter (\<lambda>r. p_perm_holm r < alpha) res)
               in Inr ((res, sig_cats), g'))"




text \<open>A table row with a given category and permutation p-value.\<close>

definition p_row :: "string \<Rightarrow> real \<Rightarrow> cat_row" where
  "p_row c p =
     \<lparr>Category = c, N_with = 5, N_baseline = 5, Mean_with = Fin 0, Mean_baseline = Fin 0,
      c_t_stat = Fin 0, c_p_perm = p, Cohen_d = Fin 0\<rparr>"


subsection \<open>\<open>show_priority_return_chi2\<close>\<close>

text \<open>
  \<open>_chi2_statistic\<close> and \<open>chi2_independence\<close> of \<open>tests.py\<close>. The contingency table has one
  row for each group and one column for each level of \<open>np.unique\<close> (sorted, distinct);
  \<open>scipy.stats.chi2_contingency\<close> is library code and a parameter, returning the statistic
  and the classical p-value or raising.
\<close>

type_synonym chi2_contingency = "nat list list \<Rightarrow> error + (fval \<times> fval)"

definition contingency :: "int list list \<Rightarrow> nat list list" where
  "contingency groups =
     (let levels = sort (remdups (concat groups))
      in map (\<lambda>arr. map (\<lambda>lvl. count_list arr lvl) levels) groups)"

definition chi2_statistic :: "chi2_contingency \<Rightarrow> int stat_func" where
  "chi2_statistic chi2_contingency groups =
     (if groups = [] then Inl ValueError
      else case chi2_contingency (contingency groups) of
             Inl e \<Rightarrow> Inl e
           | Inr (chi2, p) \<Rightarrow> Inr chi2)"

record chi2_result =
  chi2_stat :: fval
  x_p_parametric :: fval
  x_p_perm :: real

definition chi2_independence ::
  "chi2_contingency \<Rightarrow> (int \<Rightarrow> 'g) \<Rightarrow> (int, 'g) shuffle \<Rightarrow> 'g \<Rightarrow>
   int list list \<Rightarrow> int \<Rightarrow> int option \<Rightarrow> error + (chi2_result \<times> 'g)" where
  "chi2_independence chi2_contingency seed shuffle g groups num_permutations random_seed =
     (case chi2_statistic chi2_contingency groups of
        Inl e \<Rightarrow> Inl e
      | Inr chi2 \<Rightarrow>
          (case chi2_contingency (contingency groups) of
             Inl e \<Rightarrow> Inl e
           | Inr (c, p_param) \<Rightarrow>
               (case permutation_pvalue seed shuffle g groups
                       (chi2_statistic chi2_contingency) num_permutations False random_seed of
                  Inl e \<Rightarrow> Inl e
                | Inr (pp, g') \<Rightarrow>
                    Inr (\<lparr>chi2_stat = chi2, x_p_parametric = p_param, x_p_perm = pp\<rparr>, g'))))"

text \<open>
  Lines 232 to 239: the priority of a row is the largest priority among the categories
  of \<open>prio_map\<close> with a positive count, and missing when there is none.
\<close>

definition news_prio :: "(string \<times> int) list \<Rightarrow> row \<Rightarrow> int option" where
  "news_prio prio_map r =
     (case map snd (filter (\<lambda>(c, p). gt0 (cell r (cat_col c))) prio_map) of
        [] \<Rightarrow> None
      | p # ps \<Rightarrow> Some (foldl max p ps))"

text \<open>
  Line 232 stores the priority in the column \<open>News_Prio\<close> of \<open>rows\<close>, as a float and
  missing when there is none; the column replaces one of that name.
\<close>

definition with_news_prio :: "(string \<times> int) list \<Rightarrow> row \<Rightarrow> row" where
  "with_news_prio prio_map r =
     r\<lparr>cell := (cell r)(''News_Prio'' := map_option real_of_int (news_prio prio_map r))\<rparr>"

text \<open>
  Line 242: the magnitude cell of a row of \<open>rows\<close>. The test \<open>return_col in rows\<close> is made
  on the columns of \<open>rows\<close>, which include \<open>News_Prio\<close>.
\<close>

definition magnitude :: "frame \<Rightarrow> string \<Rightarrow> row \<Rightarrow> real option" where
  "magnitude df return_col r =
     (if return_col \<in> set (''News_Prio'' # columns df) then cell r return_col
      else map_option abs (cell r ''Return''))"

text \<open>\<open>Series.median()\<close> skips the missing cells and is \<open>nan\<close> when none is left.\<close>

definition pd_median :: "real option list \<Rightarrow> fval" where
  "pd_median cs =
     (let vs = sort (dropna cs); n = length vs
      in if n = 0 then NaN
         else if odd n then Fin (vs ! (n div 2))
         else Fin ((vs ! (n div 2 - 1) + vs ! (n div 2)) / 2))"

text \<open>The threshold argument: the string \<open>"median"\<close> or a float.\<close>

datatype threshold = Median | Threshold fval

definition cell_val :: "real option \<Rightarrow> fval" where
  "cell_val c = (case c of None \<Rightarrow> NaN | Some v \<Rightarrow> Fin v)"

text \<open>Line 244: \<open>(abs_ret >= thr).astype(int)\<close> on one cell.\<close>

definition high_abs_ret :: "fval \<Rightarrow> real option \<Rightarrow> int" where
  "high_abs_ret thr c = (if fge (cell_val c) thr then 1 else 0)"

text \<open>Lines 231 to 251: the groups handed to \<open>chi2_independence\<close>.\<close>

definition priority_groups ::
  "frame \<Rightarrow> string list \<Rightarrow> (string \<times> int) list \<Rightarrow> string \<Rightarrow> threshold \<Rightarrow> int list list" where
  "priority_groups df top_times prio_map return_col absret_threshold =
     (let target = filter (isin top_times) (recs df);
          News_Prio = map (news_prio prio_map) target;
          rows = map (with_news_prio prio_map) target;
          abs_ret = map (magnitude df return_col) rows;
          thr = (case absret_threshold of Median \<Rightarrow> pd_median abs_ret | Threshold v \<Rightarrow> v);
          HighAbsRet = map (high_abs_ret thr) abs_ret;
          kept = List.map_filter (\<lambda>(p, h). map_option (\<lambda>q. (q, h)) p) (zip News_Prio HighAbsRet)
      in map (\<lambda>prio. map snd (filter (\<lambda>(q, h). q = prio) kept))
           (sort (remdups (map fst kept))))"

definition show_priority_return_chi2 ::
  "chi2_contingency \<Rightarrow> (int \<Rightarrow> 'g) \<Rightarrow> (int, 'g) shuffle \<Rightarrow> 'g \<Rightarrow>
   frame \<Rightarrow> string list \<Rightarrow> (string \<times> int) list \<Rightarrow> string \<Rightarrow> threshold \<Rightarrow> int \<Rightarrow> int option \<Rightarrow>
   error + (chi2_result \<times> 'g)" where
  "show_priority_return_chi2 chi2_contingency seed shuffle g df top_times prio_map return_col
     absret_threshold num_permutations random_seed =
     chi2_independence chi2_contingency seed shuffle g
       (priority_groups df top_times prio_map return_col absret_threshold)
       num_permutations random_seed"


section \<open>Confidence intervals (\<open>eda/calculate.py\<close>)\<close>














section \<open>Properties of the permutation engine\<close>

lemma perm_loop_hits_bounds:
  "perm_loop shuffle stat_func two_sided t_obs sizes k flat g hits = Inr (h, g') \<Longrightarrow>
   hits \<le> h \<and> h \<le> hits + k"
proof (induction k arbitrary: flat g hits)
  case 0
  then show ?case by simp
next
  case (Suc k)
  obtain res flat' g1 where r: "reshuffle shuffle sizes flat g = (res, flat', g1)"
    by (cases "reshuffle shuffle sizes flat g") auto
  from Suc.prems r obtain t where
    t: "stat_func res = Inr t" and
    rec: "perm_loop shuffle stat_func two_sided t_obs sizes k flat' g1
            (hits + (if is_hit two_sided t t_obs then 1 else 0)) = Inr (h, g')"
    by (auto split: sum.splits)
  from Suc.IH [OF rec] show ?case
    by (auto split: if_splits)
qed

lemma length_sub_arys: "length (sub_arys ds xs) = length ds - 1"
  by (induction ds xs rule: sub_arys.induct) auto

lemma length_np_split: "length (np_split ary indices) = Suc (length indices)"
  by (simp add: np_split_def length_sub_arys)

lemma length_cumsum_from: "length (cumsum_from a sizes) = length sizes"
  by (induction sizes arbitrary: a) auto

lemma last_Cons_cumsum_from: "last (a # cumsum_from a sizes) = a + sum_list sizes"
  by (induction sizes arbitrary: a) (auto simp: add.assoc)

lemma last_cumsum_from: "sizes \<noteq> [] \<Longrightarrow> last (cumsum_from a sizes) = a + sum_list sizes"
  using last_Cons_cumsum_from [of a sizes] by (cases sizes) auto

lemma cumsum_from_not_Nil: "sizes \<noteq> [] \<Longrightarrow> cumsum_from a sizes \<noteq> []"
  by (cases sizes) auto

lemma sub_arys_cumsum_from:
  "a + sum_list sizes \<le> length xs \<Longrightarrow>
   map length (sub_arys (a # cumsum_from a sizes) xs) = sizes \<and>
   concat (sub_arys (a # cumsum_from a sizes) xs) = take (sum_list sizes) (drop a xs)"
proof (induction sizes arbitrary: a)
  case Nil
  then show ?case by simp
next
  case (Cons s sizes)
  from Cons.prems have le: "(a + s) + sum_list sizes \<le> length xs" by simp
  from Cons.IH [OF le] Cons.prems show ?case
    by (simp add: py_slice_def take_add add.commute)
qed

lemma np_split_sizes:
  assumes "sizes \<noteq> []" and "length ary = sum_list sizes"
  shows "map length (np_split ary (butlast (cumsum sizes))) = sizes"
    and "concat (np_split ary (butlast (cumsum sizes))) = ary"
proof -
  have "butlast (cumsum sizes) @ [length ary] = cumsum_from 0 sizes"
    using assms last_cumsum_from [of sizes 0] cumsum_from_not_Nil [of sizes 0]
      append_butlast_last_id [of "cumsum_from 0 sizes"]
    by (simp add: cumsum_def)
  then have eq: "np_split ary (butlast (cumsum sizes)) = sub_arys (0 # cumsum_from 0 sizes) ary"
    by (simp add: np_split_def)
  from sub_arys_cumsum_from [of 0 sizes ary] assms
  show "map length (np_split ary (butlast (cumsum sizes))) = sizes"
    and "concat (np_split ary (butlast (cumsum sizes))) = ary"
    by (simp_all add: eq)
qed

lemma perm_iterations_length:
  "length (perm_iterations shuffle sizes k flat g) = k"
  by (induction k arbitrary: flat g) (auto split: prod.splits)

lemma perm_iterations_invariant:
  assumes perm: "\<And>g xs. mset (fst (shuffle g xs)) = mset xs"
    and ne: "sizes \<noteq> []"
    and len: "mset flat = pool" "size pool = sum_list sizes"
    and mem: "(res, flat') \<in> set (perm_iterations shuffle sizes k flat g)"
  shows "map length res = sizes \<and> concat res = flat' \<and> mset flat' = pool"
  using len mem
proof (induction k arbitrary: flat g)
  case 0
  then show ?case by simp
next
  case (Suc k)
  obtain fl g1 where sh: "shuffle g flat = (fl, g1)" by (cases "shuffle g flat") auto
  from perm [of g flat] sh Suc.prems(1) have m: "mset fl = pool" by simp
  then have l: "length fl = sum_list sizes" using Suc.prems(2) by (metis size_mset)
  from Suc.prems(3) sh
  consider "res = np_split fl (butlast (cumsum sizes))" "flat' = fl"
    | "(res, flat') \<in> set (perm_iterations shuffle sizes k fl g1)"
    by (auto simp: reshuffle_def)
  then show ?case
  proof cases
    case 1
    with np_split_sizes [OF ne l] m show ?thesis by simp
  next
    case 2
    from Suc.IH [OF m Suc.prems(2) 2] show ?thesis .
  qed
qed

text \<open>The loop counts the hits over exactly the iterations of \<open>perm_iterations\<close>.\<close>

lemma perm_loop_counts:
  assumes "\<And>res flat'. (res, flat') \<in> set (perm_iterations shuffle sizes k flat g) \<Longrightarrow>
             \<exists>t. stat_func res = Inr t"
  shows "\<exists>g'. perm_loop shuffle stat_func two_sided t_obs sizes k flat g hits =
           Inr (hits + hit_count stat_func two_sided t_obs
                         (perm_iterations shuffle sizes k flat g), g')"
  using assms
proof (induction k arbitrary: flat g hits)
  case 0
  then show ?case by (simp add: hit_count_def)
next
  case (Suc k)
  obtain res fl g1 where r: "reshuffle shuffle sizes flat g = (res, fl, g1)"
    by (cases "reshuffle shuffle sizes flat g") auto
  from Suc.prems [of res fl] r obtain t where t: "stat_func res = Inr t" by auto
  have "\<exists>g'. perm_loop shuffle stat_func two_sided t_obs sizes k fl g1
               (hits + (if is_hit two_sided t t_obs then 1 else 0)) =
             Inr (hits + (if is_hit two_sided t t_obs then 1 else 0)
                   + hit_count stat_func two_sided t_obs (perm_iterations shuffle sizes k fl g1), g')"
    by (rule Suc.IH) (use Suc.prems r in auto)
  with r t show ?case
    by (auto simp: hit_count_def)
qed

lemma perm_iterations_res_length:
  "(res, flat') \<in> set (perm_iterations shuffle sizes k flat g) \<Longrightarrow>
   length res = Suc (length sizes - 1)"
proof (induction k arbitrary: flat g)
  case 0
  then show ?case by simp
next
  case (Suc k)
  then show ?case
    by (auto simp: reshuffle_def length_np_split cumsum_def length_cumsum_from
             split: prod.splits)
qed

lemma hit_count_le: "hit_count stat_func two_sided t_obs its \<le> length its"
  by (simp add: hit_count_def)

lemma mset_rotate_pool: "mset (rotate n xs) = mset xs"
proof -
  have "mset (drop k xs @ take k xs) = mset (take k xs @ drop k xs)" for k
    by (simp only: mset_append add.commute)
  then show ?thesis by (simp add: rotate_drop_take del: mset_append)
qed

lemma permutation_pvalue_returns:
  assumes n: "num_samples \<noteq> 0" and ne: "groups \<noteq> []"
    and st: "\<forall>gs. length gs = length groups \<longrightarrow> (\<exists>t. stat_func gs = Inr t)"
    and sd: "seeded seed g random_seed = Inr g0"
  shows "\<exists>t_obs g'. stat_func groups = Inr t_obs \<and>
           permutation_pvalue seed shuffle g groups stat_func num_samples two_sided random_seed =
           Inr (real (hit_count stat_func two_sided t_obs
                        (perm_iterations shuffle (map length groups) (nat num_samples)
                           (concat groups) g0))
                 / real_of_int num_samples, g')"
proof -
  from st obtain t_obs where t: "stat_func groups = Inr t_obs" by blast
  have "\<exists>g'. perm_loop shuffle stat_func two_sided t_obs (map length groups)
               (nat num_samples) (concat groups) g0 0 =
             Inr (0 + hit_count stat_func two_sided t_obs
                    (perm_iterations shuffle (map length groups) (nat num_samples)
                       (concat groups) g0), g')"
  proof (rule perm_loop_counts)
    fix res flat'
    assume "(res, flat') \<in> set (perm_iterations shuffle (map length groups)
                                  (nat num_samples) (concat groups) g0)"
    from perm_iterations_res_length [OF this] ne have "length res = length groups"
      by (cases groups) auto
    with st show "\<exists>t. stat_func res = Inr t" by blast
  qed
  with t ne n sd show ?thesis
    by (auto simp: permutation_pvalue_def Let_def)
qed

lemma seeded_None: "seeded seed g None = Inr g"
  by (simp add: seeded_def)

text \<open>
  Claim C5. For \<open>num_samples \<ge> 1\<close>, a value returned by \<open>permutation_pvalue\<close> is the
  ratio of a hit count of at most \<open>num_samples\<close> to \<open>num_samples\<close> and lies in \<open>[0, 1]\<close>;
  and a value is returned whenever the seed, if one is given, is valid, there is at
  least one group and the statistic is defined on every list of as many groups.
\<close>

theorem permutation_pvalue_unit_interval:
  assumes "1 \<le> num_samples"
  shows "(\<forall>p g'. permutation_pvalue seed shuffle g groups stat_func num_samples
                   two_sided random_seed = Inr (p, g') \<longrightarrow>
            0 \<le> p \<and> p \<le> 1 \<and>
            (\<exists>hits \<le> nat num_samples. p = real hits / real_of_int num_samples)) \<and>
         ((case random_seed of None \<Rightarrow> True | Some s \<Rightarrow> 0 \<le> s \<and> s < 2 ^ 32) \<and>
          groups \<noteq> [] \<and> (\<forall>gs. length gs = length groups \<longrightarrow> (\<exists>t. stat_func gs = Inr t)) \<longrightarrow>
            (\<exists>p g'. permutation_pvalue seed shuffle g groups stat_func num_samples
                      two_sided random_seed = Inr (p, g')))"
proof (intro conjI allI impI)
  fix p g'
  assume r: "permutation_pvalue seed shuffle g groups stat_func num_samples
               two_sided random_seed = Inr (p, g')"
  then obtain t_obs hits g0 where
    loop: "perm_loop shuffle stat_func two_sided t_obs (map length groups)
             (nat num_samples) (concat groups) g0 0 = Inr (hits, g')"
    and p: "p = real hits / real_of_int num_samples"
    by (auto simp: permutation_pvalue_def Let_def split: sum.splits if_splits)
  from perm_loop_hits_bounds [OF loop] have h: "hits \<le> nat num_samples" by simp
  with assms have "real hits \<le> real_of_int num_samples" by linarith
  with assms p h show "0 \<le> p" and "p \<le> 1"
    and "\<exists>hits \<le> nat num_samples. p = real hits / real_of_int num_samples"
    by auto
next
  assume a: "(case random_seed of None \<Rightarrow> True | Some s \<Rightarrow> 0 \<le> s \<and> s < 2 ^ 32) \<and>
          groups \<noteq> [] \<and> (\<forall>gs. length gs = length groups \<longrightarrow> (\<exists>t. stat_func gs = Inr t))"
  then obtain g0 where sd: "seeded seed g random_seed = Inr g0"
    by (auto simp: seeded_def split: option.splits)
  from assms have n: "num_samples \<noteq> 0" by simp
  from a have ne: "groups \<noteq> []"
    and st: "\<forall>gs. length gs = length groups \<longrightarrow> (\<exists>t. stat_func gs = Inr t)"
    by simp_all
  from permutation_pvalue_returns [OF n ne st sd, of shuffle two_sided]
  show "\<exists>p g'. permutation_pvalue seed shuffle g groups stat_func num_samples
                      two_sided random_seed = Inr (p, g')"
    by blast
qed

theorem permutation_pvalue_unit_interval_witness:
  "(1::int) \<le> 3 \<and>
   permutation_pvalue seed_counter rot_shuffle 0 [[1], [2, 3]] f_statistic 3 False None
     = Inr (2 / 3, 3) \<and>
   (0::real) \<le> 2 / 3 \<and> (2::real) / 3 \<le> 1 \<and>
   (\<exists>hits \<le> nat 3. (2::real) / 3 = real hits / real_of_int 3)"
proof -
  have e: "permutation_pvalue seed_counter rot_shuffle 0 [[1], [2, 3]] f_statistic 3 False None
     = Inr (2 / 3, 3)"
    by code_simp
  from permutation_pvalue_unit_interval
         [of 3 seed_counter rot_shuffle 0 "[[1], [2, 3]]" f_statistic False None] e
  show ?thesis by simp
qed

text \<open>
  Claim C2, as the code has it. \<open>permutation_pvalue\<close> does not validate \<open>num_samples\<close>.
  With \<open>num_samples < 1\<close> no iteration runs. A seed outside \<open>[0, 2 ^ 32 - 1]\<close> raises
  \<open>ValueError\<close> first, then an exception of the observed statistic or of
  \<open>np.concatenate\<close> propagates; otherwise a count of zero raises \<open>ZeroDivisionError\<close> at
  the final division, and a negative count returns 0.
\<close>

theorem permutation_pvalue_nonpositive:
  assumes "num_samples < 1"
  shows "permutation_pvalue seed shuffle g groups stat_func num_samples two_sided random_seed =
           (if (case random_seed of None \<Rightarrow> False | Some s \<Rightarrow> s < 0 \<or> 2 ^ 32 \<le> s)
            then Inl ValueError
            else case stat_func groups of
                   Inl e \<Rightarrow> Inl e
                 | Inr t_obs \<Rightarrow>
                     if groups = [] then Inl ValueError
                     else if num_samples = 0 then Inl ZeroDivisionError
                     else Inr (0, case random_seed of None \<Rightarrow> g | Some s \<Rightarrow> seed s))"
proof -
  from assms have "nat num_samples = 0" by simp
  then show ?thesis
    by (auto simp: permutation_pvalue_def seeded_def Let_def split: sum.splits option.splits)
qed

theorem permutation_pvalue_nonpositive_witness:
  "(0::int) < 1 \<and>
   permutation_pvalue seed_counter rot_shuffle 5 [[1], [2, 3]] f_statistic 0 False (Some 7)
     = Inl ZeroDivisionError \<and>
   (- 1 :: int) < 1 \<and>
   permutation_pvalue seed_counter rot_shuffle 5 [[1], [2, 3]] f_statistic (- 1) False (Some 7)
     = Inr (0, 0) \<and>
   permutation_pvalue seed_counter rot_shuffle 5 [[1], [2, 3]] f_statistic (- 1) False (Some (- 1))
     = Inl ValueError"
proof -
  have f: "f_statistic [[1], [2, 3]] = Inr (Fin 3)"
    by code_simp
  have a: "permutation_pvalue seed_counter rot_shuffle 5 [[1], [2, 3]] f_statistic 0 False (Some 7)
     = Inl ZeroDivisionError"
    using permutation_pvalue_nonpositive
         [of 0 seed_counter rot_shuffle 5 "[[1], [2, 3]]" f_statistic False "Some 7"] f
    by simp
  have b: "permutation_pvalue seed_counter rot_shuffle 5 [[1], [2, 3]] f_statistic (- 1) False
             (Some 7) = Inr (0, 0)"
    using permutation_pvalue_nonpositive
         [of "- 1" seed_counter rot_shuffle 5 "[[1], [2, 3]]" f_statistic False "Some 7"] f
    by (simp add: seed_counter_def)
  have c: "permutation_pvalue seed_counter rot_shuffle 5 [[1], [2, 3]] f_statistic (- 1) False
             (Some (- 1)) = Inl ValueError"
    using permutation_pvalue_nonpositive
         [of "- 1" seed_counter rot_shuffle 5 "[[1], [2, 3]]" f_statistic False "Some (- 1)"]
    by simp
  from a b c show ?thesis by simp
qed

text \<open>
  Claim C2 as stated fails: with \<open>num_samples = -1\<close> the call returns the number 0.
\<close>

theorem permutation_pvalue_negative_count_counterexample:
  "permutation_pvalue seed_counter rot_shuffle 0 [[1], [2, 3]] f_statistic (- 1) False None
     = Inr (0, 0)"
  by (simp add: permutation_pvalue_def seeded_def f_statistic_def np_mean_def fsum_def fsq_def
      fsub_def)

text \<open>
  Claim C9. When the library shuffle permutes its array, the groups of every iteration
  have the sizes of the original groups in the original order, they are the contiguous
  chunks of the shuffled pool, the pool holds the original observations, and the sum of
  the group sizes is unchanged.
\<close>

theorem reshuffled_groups_keep_sizes:
  assumes "\<forall>g xs. mset (fst (shuffle g xs)) = mset xs"
    and "groups \<noteq> []"
    and "(res, flat') \<in> set (perm_iterations shuffle (map length groups) k (concat groups) g)"
  shows "map length res = map length groups \<and> concat res = flat' \<and>
         mset flat' = mset (concat groups) \<and>
         sum_list (map length res) = sum_list (map length groups)"
proof -
  have "map length res = map length groups \<and> concat res = flat' \<and>
        mset flat' = mset (concat groups)"
  proof (rule perm_iterations_invariant [where pool = "mset (concat groups)"])
    show "mset (fst (shuffle g xs)) = mset xs" for g xs using assms(1) by blast
    show "map length groups \<noteq> []" using assms(2) by simp
    show "size (mset (concat groups)) = sum_list (map length groups)"
      by (simp add: length_concat)
    show "(res, flat') \<in> set (perm_iterations shuffle (map length groups) k (concat groups) g)"
      by (rule assms(3))
  qed simp
  then show ?thesis by simp
qed

theorem reshuffled_groups_keep_sizes_witness:
  "(\<forall>g xs. mset (fst (rot_shuffle g (xs :: real list))) = mset xs) \<and>
   [[1], [2, 3 :: real]] \<noteq> [] \<and>
   ([[3], [1, 2]], [3, 1, 2 :: real]) \<in>
      set (perm_iterations rot_shuffle (map length [[1], [2, 3 :: real]]) 2
             (concat [[1], [2, 3]]) (0::nat)) \<and>
   map length [[3], [1, 2 :: real]] = map length [[1], [2, 3 :: real]] \<and>
   concat [[3], [1, 2 :: real]] = [3, 1, 2] \<and>
   mset [3, 1, 2 :: real] = mset (concat [[1], [2, 3]])"
proof -
  have a: "\<forall>g xs. mset (fst (rot_shuffle g (xs :: real list))) = mset xs"
    by (simp add: rot_shuffle_def mset_rotate_pool)
  have b: "([[3], [1, 2]], [3, 1, 2 :: real]) \<in>
      set (perm_iterations rot_shuffle (map length [[1], [2, 3 :: real]]) 2
             (concat [[1], [2, 3]]) (0::nat))"
    by code_simp
  have c: "[[1], [2, 3 :: real]] \<noteq> []" by simp
  from reshuffled_groups_keep_sizes [OF a c b] a b c show ?thesis by simp
qed

section \<open>Properties of the classical tests\<close>

lemma t_stat_func_defined:
  "length gs = 2 \<Longrightarrow>
   t_stat_func ttest_ind equal_var gs = Inr (fst (ttest_ind (gs ! 0) (gs ! 1) equal_var))"
  by (simp add: t_stat_func_def)

lemma ttest_two_samples_returns:
  assumes "num_permutations \<noteq> 0"
  shows "\<exists>g'. ttest_two_samples ttest_ind seed shuffle g x y equal_var num_permutations =
           Inr (\<lparr>N_x = length x, N_y = length y, Mean_x = np_mean x, Mean_y = np_mean y,
                 t_stat = fst (ttest_ind x y equal_var),
                 p_classic = snd (ttest_ind x y equal_var),
                 p_perm =
                   real (length (filter
                     (\<lambda>(res, flat'). fge (fst (ttest_ind (res ! 0) (res ! 1) equal_var))
                                        (fst (ttest_ind x y equal_var)))
                     (perm_iterations shuffle [length x, length y] (nat num_permutations)
                        (x @ y) g)))
                   / real_of_int num_permutations\<rparr>, g')"
proof -
  let ?sf = "t_stat_func ttest_ind equal_var"
  let ?t = "fst (ttest_ind x y equal_var)"
  let ?its = "perm_iterations shuffle [length x, length y] (nat num_permutations) (x @ y) g"
  have len: "length res = 2" if "(res, flat') \<in> set ?its" for res flat'
    using perm_iterations_res_length [OF that] by simp
  have "\<exists>g'. perm_loop shuffle ?sf False ?t [length x, length y] (nat num_permutations)
               (x @ y) g 0 = Inr (0 + hit_count ?sf False ?t ?its, g')"
    by (rule perm_loop_counts) (simp add: t_stat_func_defined len)
  then obtain g' where loop:
    "perm_loop shuffle ?sf False ?t [length x, length y] (nat num_permutations)
       (x @ y) g 0 = Inr (hit_count ?sf False ?t ?its, g')"
    by auto
  have "filter (\<lambda>(res, flat'). case ?sf res of Inl e \<Rightarrow> False | Inr t \<Rightarrow> is_hit False t ?t) ?its
      = filter (\<lambda>(res, flat'). fge (fst (ttest_ind (res ! 0) (res ! 1) equal_var)) ?t) ?its"
    by (rule filter_cong) (auto simp: t_stat_func_defined len is_hit_def)
  then have hc: "hit_count ?sf False ?t ?its =
        length (filter (\<lambda>(res, flat'). fge (fst (ttest_ind (res ! 0) (res ! 1) equal_var)) ?t) ?its)"
    by (simp add: hit_count_def)
  have obs: "?sf [x, y] = Inr ?t" by (simp add: t_stat_func_def)
  from assms loop obs hc show ?thesis
    by (auto simp: ttest_two_samples_def permutation_pvalue_def seeded_None Let_def
             split: prod.splits)
qed

text \<open>
  Claim C1, as the code has it. \<open>ttest_two_samples\<close> calls \<open>permutation_pvalue\<close> with the
  default \<open>two_sided = False\<close>, so its permutation p-value is one-sided: for
  \<open>num_permutations \<ge> 1\<close> the call returns, and \<open>p_perm\<close> is the number of iterations
  whose reshuffled t-statistic is at least the observed t-statistic (no absolute values),
  divided by \<open>num_permutations\<close>.
\<close>

theorem ttest_two_samples_one_sided:
  assumes "1 \<le> num_permutations"
  shows "\<exists>g'. ttest_two_samples ttest_ind seed shuffle g x y equal_var num_permutations =
           Inr (\<lparr>N_x = length x, N_y = length y, Mean_x = np_mean x, Mean_y = np_mean y,
                 t_stat = fst (ttest_ind x y equal_var),
                 p_classic = snd (ttest_ind x y equal_var),
                 p_perm =
                   real (length (filter
                     (\<lambda>(res, flat'). fge (fst (ttest_ind (res ! 0) (res ! 1) equal_var))
                                        (fst (ttest_ind x y equal_var)))
                     (perm_iterations shuffle [length x, length y] (nat num_permutations)
                        (x @ y) g)))
                   / real_of_int num_permutations\<rparr>, g')"
proof -
  from assms have "num_permutations \<noteq> 0" by simp
  then show ?thesis by (rule ttest_two_samples_returns)
qed

theorem ttest_two_samples_one_sided_witness:
  "(1::int) \<le> 1 \<and>
   (\<exists>g'. ttest_two_samples ttest_ind_stat seed_counter rot_shuffle 0 [10, 13] [0, 4] False 1 =
           Inr (\<lparr>N_x = 2, N_y = 2, Mean_x = Fin (23 / 2), Mean_y = Fin 2,
                 t_stat = fst (ttest_ind_stat [10, 13] [0, 4] False),
                 p_classic = NaN,
                 p_perm =
                   real (length (filter
                     (\<lambda>(res, flat'). fge (fst (ttest_ind_stat (res ! 0) (res ! 1) False))
                                        (fst (ttest_ind_stat [10, 13] [0, 4] False)))
                     (perm_iterations rot_shuffle [2, 2] (nat 1) ([10, 13] @ [0, 4]) 0)))
                   / real_of_int 1\<rparr>, g'))"
  using ttest_two_samples_one_sided
          [of 1 ttest_ind_stat seed_counter rot_shuffle 0 "[10, 13]" "[0, 4]" False]
  by (simp add: np_mean_def ttest_ind_stat_def numeral_2_eq_2)

lemma sqrt_25_4: "sqrt (25 / 4) = 5 / 2"
  by (rule real_sqrt_unique) (simp_all add: power2_eq_square)

lemma t_statistic_example_obs: "t_statistic [10, 13] [0, 4] False = Fin (19 / 5)"
proof -
  have v1: "np_var1 [10, 13] = Fin (9 / 2)" by code_simp
  have v2: "np_var1 [0, 4] = Fin 8" by code_simp
  have m1: "np_mean [10, 13] = Fin (23 / 2)" by code_simp
  have m2: "np_mean [0, 4] = Fin 2" by code_simp
  show ?thesis
    by (simp add: t_statistic_def v1 v2 m1 m2 fsub_def sqrt_25_4)
qed

lemma t_statistic_example_perm: "t_statistic [0, 4] [10, 13] False = Fin (- 19 / 5)"
proof -
  have v1: "np_var1 [10, 13] = Fin (9 / 2)" by code_simp
  have v2: "np_var1 [0, 4] = Fin 8" by code_simp
  have m1: "np_mean [10, 13] = Fin (23 / 2)" by code_simp
  have m2: "np_mean [0, 4] = Fin 2" by code_simp
  show ?thesis
    by (simp add: t_statistic_def v1 v2 m1 m2 fsub_def sqrt_25_4)
qed

text \<open>
  Claim C1 as stated fails. For \<open>x = [10, 13]\<close>, \<open>y = [0, 4]\<close> and one permutation that
  exchanges the groups, the reshuffled Welch statistic is \<open>-19/5\<close> and the observed one
  \<open>19/5\<close>: the absolute values are equal, yet the iteration is not counted and \<open>p_perm\<close>
  is 0.
\<close>

theorem ttest_two_samples_two_sided_counterexample:
  "perm_iterations rot_shuffle [2, 2] 1 ([10, 13] @ [0, 4 :: real]) (0::nat)
     = [([[0, 4], [10, 13]], [0, 4, 10, 13])] \<and>
   fge (fabs (t_statistic [0, 4] [10, 13] False)) (fabs (t_statistic [10, 13] [0, 4] False)) \<and>
   ttest_two_samples ttest_ind_stat seed_counter rot_shuffle 0 [10, 13] [0, 4] False 1 =
     Inr (\<lparr>N_x = 2, N_y = 2, Mean_x = Fin (23 / 2), Mean_y = Fin 2, t_stat = Fin (19 / 5),
           p_classic = NaN, p_perm = 0\<rparr>, 1)"
proof -
  have its: "perm_iterations rot_shuffle [2, 2] 1 ([10, 13] @ [0, 4 :: real]) (0::nat)
     = [([[0, 4], [10, 13]], [0, 4, 10, 13])]"
    by code_simp
  have r: "reshuffle rot_shuffle [Suc (Suc 0), Suc (Suc 0)] [10, 13, 0, 4 :: real] (0::nat)
     = ([[0, 4], [10, 13]], [0, 4, 10, 13], 1)"
    by code_simp
  have m1: "np_mean [10, 13] = Fin (23 / 2)" by code_simp
  have m2: "np_mean [0, 4] = Fin 2" by code_simp
  have two: "fge (fabs (t_statistic [0, 4] [10, 13] False))
               (fabs (t_statistic [10, 13] [0, 4] False))"
    by (simp add: t_statistic_example_obs t_statistic_example_perm)
  have run: "ttest_two_samples ttest_ind_stat seed_counter rot_shuffle 0 [10, 13] [0, 4] False 1 =
     Inr (\<lparr>N_x = 2, N_y = 2, Mean_x = Fin (23 / 2), Mean_y = Fin 2, t_stat = Fin (19 / 5),
           p_classic = NaN, p_perm = 0\<rparr>, 1)"
    by (simp add: t_statistic_example_obs t_statistic_example_perm
        ttest_two_samples_def permutation_pvalue_def seeded_None t_stat_func_def
        ttest_ind_stat_def r is_hit_def m1 m2 Let_def)
  from its two run show ?thesis by (intro conjI)
qed







section \<open>Properties of the category t-tests and the Holm correction\<close>

lemma holm_p_nth_form:
  "holm_p p = map (\<lambda>i. min 1 (p ! i * real (length p - i))) [0..<length p]"
proof (rule nth_equalityI)
  show "length (holm_p p) = length (map (\<lambda>i. min 1 (p ! i * real (length p - i))) [0..<length p])"
    by (simp add: holm_p_def holm_factors_def)
next
  fix i assume "i < length (holm_p p)"
  then have i: "i < length p" by (simp add: holm_p_def holm_factors_def)
  then have "real_of_int (int (length p) - int i) = real (length p - i)"
    by (simp add: of_nat_diff)
  with i show "holm_p p ! i = map (\<lambda>i. min 1 (p ! i * real (length p - i))) [0..<length p] ! i"
    by (simp add: holm_p_def holm_factors_def)
qed

lemma length_holm_p: "length (holm_p p) = length p"
  by (simp add: holm_p_nth_form)

lemma rint_bounds: "\<lfloor>x\<rfloor> \<le> rint x \<and> rint x \<le> \<lceil>x\<rceil>"
proof -
  have "x = real_of_int \<lfloor>x\<rfloor> \<Longrightarrow> \<lceil>x\<rceil> = \<lfloor>x\<rfloor>"
    by (metis ceiling_of_int)
  moreover have "x \<noteq> real_of_int \<lfloor>x\<rfloor> \<Longrightarrow> \<lceil>x\<rceil> = \<lfloor>x\<rfloor> + 1"
    by (metis ceiling_altdef of_int_floor_cancel)
  ultimately show ?thesis
    by (cases "x = real_of_int \<lfloor>x\<rfloor>") (auto simp: rint_def Let_def)
qed

lemma round_dec_unit:
  assumes "0 \<le> x" "x \<le> 1"
  shows "0 \<le> round_dec n x \<and> round_dec n x \<le> 1"
proof -
  let ?y = "x * 10 ^ n"
  have y0: "0 \<le> ?y" using assms by simp
  have y1: "?y \<le> 10 ^ n" using assms by (simp add: mult_left_le_one_le)
  have "0 \<le> \<lfloor>?y\<rfloor>" using y0 by simp
  with rint_bounds [of ?y] have lo: "0 \<le> rint ?y" by linarith
  have "\<lceil>?y\<rceil> \<le> 10 ^ n" using y1 by (simp add: ceiling_le_iff)
  with rint_bounds [of ?y] have hi: "rint ?y \<le> 10 ^ n" by linarith
  from hi have "real_of_int (rint ?y) \<le> 10 ^ n"
    by (metis of_int_le_iff of_int_numeral of_int_power)
  with lo show ?thesis by (simp add: round_dec_def)
qed

lemma map_sort_key: "map f (sort_key f xs) = sort (map f xs)"
proof -
  have "mset (map f (sort_key f xs)) = mset (map f xs)"
    by (simp only: mset_map mset_sort)
  then show ?thesis
    using properties_for_sort [of "map f (sort_key f xs)" "map f xs"] sorted_sort_key [of f xs]
    by simp
qed

lemma c_p_perm_round_row: "c_p_perm (round_row r) = round_dec 6 (c_p_perm r)"
  by (simp add: round_row_def)

lemma sorted_column:
  "map c_p_perm (sort_key c_p_perm (map round_row rows)) =
     sort (map (\<lambda>r. round_dec 6 (c_p_perm r)) rows)"
  by (simp add: map_sort_key c_p_perm_round_row comp_def)

lemma extend_columns:
  assumes "length res = length h"
  shows "map c_p_perm (map2 (\<lambda>r h. cat_row.extend r \<lparr>p_perm_holm = h\<rparr>) res h)
           = map c_p_perm res"
    and "map p_perm_holm (map2 (\<lambda>r h. cat_row.extend r \<lparr>p_perm_holm = h\<rparr>) res h) = h"
  using assms by (induction res h rule: list_induct2) (simp_all add: cat_row.defs)

lemma holm_table_columns:
  "map c_p_perm (holm_table rows) = sort (map (\<lambda>r. round_dec 6 (c_p_perm r)) rows)"
  "map p_perm_holm (holm_table rows) =
     holm_p (sort (map (\<lambda>r. round_dec 6 (c_p_perm r)) rows))"
proof -
  let ?res = "sort_key c_p_perm (map round_row rows)"
  let ?h = "holm_p (map c_p_perm ?res)"
  have l: "length ?res = length ?h" by (simp add: length_holm_p)
  from extend_columns(1) [OF l]
  show "map c_p_perm (holm_table rows) = sort (map (\<lambda>r. round_dec 6 (c_p_perm r)) rows)"
    by (simp only: holm_table_def Let_def sorted_column)
  from extend_columns(2) [OF l]
  show "map p_perm_holm (holm_table rows) =
     holm_p (sort (map (\<lambda>r. round_dec 6 (c_p_perm r)) rows))"
    by (simp only: holm_table_def Let_def sorted_column)
qed

text \<open>
  Claim C4. The table is sorted by ascending \<open>p_perm\<close> (the column as the table holds
  it, rounded to 6 decimals), and the Holm value of the row of rank \<open>i\<close> among \<open>m\<close> rows is
  \<open>min 1 (p * (m - i))\<close>, with no cumulative maximum: the family 0.20, 0.01, 0.02 gives
  0.03, 0.04, 0.20, and the family 0.02, 0.03 gives 0.04, 0.03, which decreases.
\<close>

theorem holm_adjustment_formula:
  "map c_p_perm (holm_table rows) = sort (map (\<lambda>r. round_dec 6 (c_p_perm r)) rows) \<and>
   map p_perm_holm (holm_table rows) =
     map (\<lambda>i. min 1 (sort (map (\<lambda>r. round_dec 6 (c_p_perm r)) rows) ! i
                       * real (length rows - i)))
         [0..<length rows] \<and>
   map p_perm_holm (holm_table [p_row ''a'' (20 / 100), p_row ''b'' (1 / 100),
                                p_row ''c'' (2 / 100)])
     = [3 / 100, 4 / 100, 20 / 100] \<and>
   map p_perm_holm (holm_table [p_row ''a'' (2 / 100), p_row ''b'' (3 / 100)])
     = [4 / 100, 3 / 100]"
proof (intro conjI)
  show "map c_p_perm (holm_table rows) = sort (map (\<lambda>r. round_dec 6 (c_p_perm r)) rows)"
    by (rule holm_table_columns)
  show "map p_perm_holm (holm_table rows) =
     map (\<lambda>i. min 1 (sort (map (\<lambda>r. round_dec 6 (c_p_perm r)) rows) ! i
                       * real (length rows - i)))
         [0..<length rows]"
    by (simp add: holm_table_columns holm_p_nth_form)
  show "map p_perm_holm (holm_table [p_row ''a'' (20 / 100), p_row ''b'' (1 / 100),
                                p_row ''c'' (2 / 100)])
     = [3 / 100, 4 / 100, 20 / 100]"
    by code_simp
  show "map p_perm_holm (holm_table [p_row ''a'' (2 / 100), p_row ''b'' (3 / 100)])
     = [4 / 100, 3 / 100]"
    by code_simp
qed

text \<open>
  Claim C6. When the permutation p-values of the rows lie in \<open>[0, 1]\<close>, every row of the
  table has its Holm value at least its \<open>p_perm\<close> and at most 1.
\<close>

theorem holm_adjusted_bounds:
  assumes "\<forall>r \<in> set rows. 0 \<le> c_p_perm r \<and> c_p_perm r \<le> 1"
  shows "\<forall>r \<in> set (holm_table rows). c_p_perm r \<le> p_perm_holm r \<and> p_perm_holm r \<le> 1"
proof
  fix r assume "r \<in> set (holm_table rows)"
  then obtain i where i: "i < length (holm_table rows)" and r: "r = holm_table rows ! i"
    by (auto simp: in_set_conv_nth)
  let ?ps = "sort (map (\<lambda>r. round_dec 6 (c_p_perm r)) rows)"
  have len: "length (holm_table rows) = length rows"
    using arg_cong [OF holm_table_columns(1) [of rows], of length] by simp
  with i have il: "i < length rows" by simp
  have p: "c_p_perm r = ?ps ! i"
    using nth_map [of i "holm_table rows" c_p_perm] i r holm_table_columns(1) [of rows] by simp
  have h: "p_perm_holm r = min 1 (?ps ! i * real (length rows - i))"
    using nth_map [of i "holm_table rows" p_perm_holm] i r il
      holm_table_columns(2) [of rows] holm_p_nth_form [of ?ps]
    by simp
  have "?ps ! i \<in> set ?ps" using il by (intro nth_mem) simp
  then obtain r0 where "r0 \<in> set rows" and "?ps ! i = round_dec 6 (c_p_perm r0)" by auto
  with assms round_dec_unit have b: "0 \<le> ?ps ! i \<and> ?ps ! i \<le> 1" by metis
  have "1 \<le> real (length rows - i)" using il by simp
  with b have "?ps ! i * 1 \<le> ?ps ! i * real (length rows - i)"
    by (intro mult_left_mono) auto
  with b p h show "c_p_perm r \<le> p_perm_holm r \<and> p_perm_holm r \<le> 1" by simp
qed

theorem holm_adjusted_bounds_witness:
  "map c_p_perm [p_row ''a'' (2 / 100), p_row ''b'' (3 / 100)] = [2 / 100, 3 / 100] \<and>
   map (\<lambda>r. (c_p_perm r, p_perm_holm r)) (holm_table [p_row ''a'' (2 / 100), p_row ''b'' (3 / 100)])
     = [(2 / 100, 4 / 100), (3 / 100, 3 / 100)] \<and>
   list_all (\<lambda>r. c_p_perm r \<le> p_perm_holm r \<and> p_perm_holm r \<le> 1)
     (holm_table [p_row ''a'' (2 / 100), p_row ''b'' (3 / 100)])"
proof -
  have a: "\<forall>r \<in> set [p_row ''a'' (2 / 100), p_row ''b'' (3 / 100)]. 0 \<le> c_p_perm r \<and> c_p_perm r \<le> 1"
    by (simp add: p_row_def)
  have b: "map (\<lambda>r. (c_p_perm r, p_perm_holm r)) (holm_table [p_row ''a'' (2 / 100), p_row ''b'' (3 / 100)])
     = [(2 / 100, 4 / 100), (3 / 100, 3 / 100)]"
    by code_simp
  have c: "map c_p_perm [p_row ''a'' (2 / 100), p_row ''b'' (3 / 100)] = [2 / 100, 3 / 100]"
    by (simp add: p_row_def)
  from holm_adjusted_bounds [OF a]
  have d: "list_all (\<lambda>r. c_p_perm r \<le> p_perm_holm r \<and> p_perm_holm r \<le> 1)
     (holm_table [p_row ''a'' (2 / 100), p_row ''b'' (3 / 100)])"
    by (simp only: list_all_iff)
  from c b d show ?thesis by (intro conjI)
qed














section \<open>Properties of the priority test\<close>






section \<open>Properties of the confidence intervals\<close>




end
